theory Spec2Isabelle
  imports Complex_Main
begin

section \<open>Terrain3D: region storage and brush editor\<close>

text \<open>
  A shallow embedding of \<^verbatim>\<open>src/terrain_editor.cpp\<close>, which holds the editor
  (\<^verbatim>\<open>Terrain3DEditor\<close>) followed by the storage (\<^verbatim>\<open>Terrain3DStorage\<close>).
  Names are the source's; a leading underscore is dropped (\<^verbatim>\<open>_update_regions\<close> is
  \<open>update_regions\<close>), since an Isabelle name cannot start with one.

  Conventions of the embedding:
  \<^item> \<^verbatim>\<open>float\<close> and \<^verbatim>\<open>double\<close> are the reals: rounding, infinities and NaN are
    not modelled. \<^verbatim>\<open>int\<close> is the unbounded integers.
  \<^item> \<^verbatim>\<open>Vector2i\<close>, \<^verbatim>\<open>Vector2\<close> and \<^verbatim>\<open>Vector3\<close> are tuples, (x, y) and (x, y, z).
  \<^item> A \<^verbatim>\<open>Ref<Image>\<close> is an \<open>Image option\<close>, \<open>None\<close> the null reference. Images are
    held by value: two slots of the tile lists never share one image object.
  \<^item> The rendering server (RIDs, material parameters, shader text), logging and signals
    are left out; a RID is kept as the flag "is valid".
\<close>

subsection \<open>Host primitives: math, colours, images\<close>

record Color =
  cr :: real
  cg :: real
  cb :: real
  ca :: real

type_synonym Vector2i = "int \<times> int"
type_synonym Vector2 = "real \<times> real"
type_synonym Vector3 = "real \<times> real \<times> real"

definition mkColor :: "real \<Rightarrow> real \<Rightarrow> real \<Rightarrow> real \<Rightarrow> Color" where
  "mkColor x y z w = \<lparr>cr = x, cg = y, cb = z, ca = w\<rparr>"

text \<open>The default-constructed \<^verbatim>\<open>Color()\<close> is opaque black, as is \<^verbatim>\<open>COLOR_BLACK\<close>.\<close>

definition Color_default :: Color where
  "Color_default = mkColor 0 0 0 1"

definition COLOR_BLACK :: Color where
  "COLOR_BLACK = mkColor 0 0 0 1"

text \<open>The C cast \<^verbatim>\<open>int(x)\<close> of a floating-point value truncates toward zero.\<close>

definition to_int :: "real \<Rightarrow> int" where
  "to_int x = (if 0 \<le> x then \<lfloor>x\<rfloor> else \<lceil>x\<rceil>)"

definition CLAMP :: "real \<Rightarrow> real \<Rightarrow> real \<Rightarrow> real" where
  "CLAMP v lo hi = (if v < lo then lo else if v > hi then hi else v)"

definition ABS :: "int \<Rightarrow> int" where
  "ABS v = (if v < 0 then - v else v)"

definition lerp :: "real \<Rightarrow> real \<Rightarrow> real \<Rightarrow> real" where
  "lerp from to weight = from + (to - from) * weight"

definition vadd :: "Vector2i \<Rightarrow> Vector2i \<Rightarrow> Vector2i" where
  "vadd p q = (fst p + fst q, snd p + snd q)"

datatype MapType = TYPE_HEIGHT | TYPE_CONTROL | TYPE_COLOR | TYPE_MAX

text \<open>
  Image formats. \<open>FORMAT_OF t\<close> stands for the entry \<^verbatim>\<open>FORMAT[t]\<close> of the table in
  \<^verbatim>\<open>terrain_storage.h\<close>, which is not among the sources; an image of such a format keeps
  a pixel as it was written. \<open>FORMAT_RG8\<close> keeps two channels as bytes, \<open>FORMAT_RH\<close> one
  channel.
\<close>

datatype Format = FORMAT_RG8 | FORMAT_RH | FORMAT_OF MapType

record Image =
  img_width :: int
  img_height :: int
  img_format :: Format
  img_data :: "Vector2i \<Rightarrow> Color"

definition to_byte :: "real \<Rightarrow> real" where
  "to_byte v = real_of_int (to_int (CLAMP (v * 255) 0 255)) / 255"

text \<open>What a pixel reads back as after it was written to an image of the format.\<close>

fun encode :: "Format \<Rightarrow> Color \<Rightarrow> Color" where
  "encode FORMAT_RG8 c = mkColor (to_byte (cr c)) (to_byte (cg c)) 0 1"
| "encode FORMAT_RH c = mkColor (cr c) 0 0 1"
| "encode (FORMAT_OF t) c = c"

definition Image_create :: "int \<Rightarrow> int \<Rightarrow> Format \<Rightarrow> Image" where
  "Image_create w h f =
     \<lparr>img_width = w, img_height = h, img_format = f,
      img_data = (\<lambda>p. encode f (mkColor 0 0 0 0))\<rparr>"

definition fill :: "Image \<Rightarrow> Color \<Rightarrow> Image" where
  "fill img c = img\<lparr>img_data := (\<lambda>p. encode (img_format img) c)\<rparr>"

definition in_image :: "Image \<Rightarrow> Vector2i \<Rightarrow> bool" where
  "in_image img p =
     (0 \<le> fst p \<and> fst p < img_width img \<and> 0 \<le> snd p \<and> snd p < img_height img)"

text \<open>
  The host's pixel accessors check the coordinate (\<^verbatim>\<open>ERR_FAIL_INDEX\<close>): a write
  outside the image is reported and dropped, a read outside the image is reported and
  yields \<^verbatim>\<open>Color()\<close>.
\<close>

definition get_pixelv :: "Image \<Rightarrow> Vector2i \<Rightarrow> Color" where
  "get_pixelv img p = (if in_image img p then img_data img p else Color_default)"

definition set_pixelv :: "Image \<Rightarrow> Vector2i \<Rightarrow> Color \<Rightarrow> Image" where
  "set_pixelv img p c =
     (if in_image img p
      then img\<lparr>img_data := (img_data img)(p := encode (img_format img) c)\<rparr>
      else img)"

text \<open>
  \<^verbatim>\<open>resize\<close> resamples the image in the host; only the new dimensions are modelled,
  the pixel content after a resize is not.
\<close>

definition resize :: "Image \<Rightarrow> int \<Rightarrow> int \<Rightarrow> Image" where
  "resize img w h = img\<lparr>img_width := w, img_height := h\<rparr>"

text \<open>\<^verbatim>\<open>Array::remove_at\<close> checks the index and leaves the array alone when it is out of range.\<close>

definition remove_at :: "'a list \<Rightarrow> int \<Rightarrow> 'a list" where
  "remove_at xs i =
     (if 0 \<le> i \<and> i < int (length xs) then take (nat i) xs @ drop (Suc (nat i)) xs else xs)"

subsection \<open>Terrain3DStorage\<close>

text \<open>\<^verbatim>\<open>Terrain3DStorage::Generated\<close>: a derived texture with its dirty flag.\<close>

record Generated =
  gen_rid :: bool
  gen_image :: "Image option"
  gen_dirty :: bool

definition Generated_clear :: "Generated \<Rightarrow> Generated" where
  "Generated_clear g = \<lparr>gen_rid = False, gen_image = None, gen_dirty = True\<rparr>"

definition Generated_create_layers :: "Image option list \<Rightarrow> Generated \<Rightarrow> Generated" where
  "Generated_create_layers p_layers g =
     (if p_layers \<noteq> [] then g\<lparr>gen_rid := True, gen_dirty := False\<rparr>
      else Generated_clear g)"

definition Generated_create_image :: "Image \<Rightarrow> Generated \<Rightarrow> Generated" where
  "Generated_create_image p_image g =
     g\<lparr>gen_image := Some p_image, gen_rid := True, gen_dirty := False\<rparr>"

text \<open>The enum \<^verbatim>\<open>RegionSize\<close>; \<^verbatim>\<open>SIZE_n\<close> has the value n.\<close>

datatype RegionSize = SIZE_64 | SIZE_128 | SIZE_256 | SIZE_512 | SIZE_1024 | SIZE_2048

fun size_value :: "RegionSize \<Rightarrow> int" where
  "size_value SIZE_64 = 64"
| "size_value SIZE_128 = 128"
| "size_value SIZE_256 = 256"
| "size_value SIZE_512 = 512"
| "size_value SIZE_1024 = 1024"
| "size_value SIZE_2048 = 2048"

datatype Error = OK | FAILED

record Storage =
  region_size :: RegionSize
  region_offsets :: "Vector2i list"
  height_maps :: "Image option list"
  control_maps :: "Image option list"
  color_maps :: "Image option list"
  noise_enabled :: bool
  generated_height_maps :: Generated
  generated_control_maps :: Generated
  generated_color_maps :: Generated
  generated_region_map :: Generated
  generated_region_blend_map :: Generated

text \<open>
  \<^verbatim>\<open>REGION_MAP_SIZE\<close> is declared in \<^verbatim>\<open>terrain_storage.h\<close>, which is not among the
  sources. \<^verbatim>\<open>_update_regions\<close> passes it to the shader as \<^verbatim>\<open>region_map_size\<close>, whose
  default in the shader text of \<^verbatim>\<open>_generate_shader_code\<close> is 16.
  \<^verbatim>\<open>REGION_MAP_VSIZE\<close> is the vector with both components \<^verbatim>\<open>REGION_MAP_SIZE\<close>.
\<close>

definition REGION_MAP_SIZE :: int where
  "REGION_MAP_SIZE = 16"

definition REGION_MAP_VSIZE :: Vector2i where
  "REGION_MAP_VSIZE = (REGION_MAP_SIZE, REGION_MAP_SIZE)"

definition vhalf :: "Vector2i \<Rightarrow> Vector2i" where
  "vhalf p = (fst p div 2, snd p div 2)"

definition get_region_size :: "Storage \<Rightarrow> int" where
  "get_region_size s = size_value (region_size s)"

text \<open>
  \<^verbatim>\<open>set_region_size\<close>: its two range checks hold for every value of the enum. The
  tiles of the regions that exist are left as they are.
\<close>

definition set_region_size :: "Storage \<Rightarrow> RegionSize \<Rightarrow> Storage" where
  "set_region_size s p_size = s\<lparr>region_size := p_size\<rparr>"

text \<open>
  \<^verbatim>\<open>get_region_count\<close> is an inline getter of \<^verbatim>\<open>terrain_storage.h\<close>, which is not
  among the sources: the number of regions is the length of \<^verbatim>\<open>region_offsets\<close>.
\<close>

definition get_region_count :: "Storage \<Rightarrow> int" where
  "get_region_count s = int (length (region_offsets s))"

definition get_offset_from :: "Storage \<Rightarrow> Vector3 \<Rightarrow> Vector2i" where
  "get_offset_from s p =
     (case p of (x, y, z) \<Rightarrow>
        (\<lfloor>x / real_of_int (get_region_size s) + 1 / 2\<rfloor>,
         \<lfloor>z / real_of_int (get_region_size s) + 1 / 2\<rfloor>))"

text \<open>The two lookups of \<^verbatim>\<open>get_region_index\<close>: through the region map image, and the scan.\<close>

definition index_from_image :: "Image \<Rightarrow> Vector2i \<Rightarrow> int" where
  "index_from_image img uv_offset =
     to_int (cr (get_pixelv img (vadd uv_offset (vhalf REGION_MAP_VSIZE))) * 255) - 1"

fun index_from_scan :: "Vector2i list \<Rightarrow> Vector2i \<Rightarrow> int \<Rightarrow> int" where
  "index_from_scan [] uv_offset i = - 1"
| "index_from_scan (ofs # rest) uv_offset i =
     (if ofs = uv_offset then i else index_from_scan rest uv_offset (i + 1))"

definition get_region_index :: "Storage \<Rightarrow> Vector3 \<Rightarrow> int" where
  "get_region_index s p =
     (let uv_offset = get_offset_from s p in
      if ABS (fst uv_offset) > REGION_MAP_SIZE div 2 \<or> ABS (snd uv_offset) > REGION_MAP_SIZE div 2
      then - 1
      else (case gen_image (generated_region_map s) of
              Some img \<Rightarrow> index_from_image img uv_offset
            | None \<Rightarrow> index_from_scan (region_offsets s) uv_offset 0))"

definition has_region :: "Storage \<Rightarrow> Vector3 \<Rightarrow> bool" where
  "has_region s p = (get_region_index s p \<noteq> - 1)"

text \<open>The loop of \<^verbatim>\<open>_update_regions\<close> that paints region i as (i + 1) / 255.\<close>

fun paint_regions :: "Vector2i list \<Rightarrow> int \<Rightarrow> Image \<Rightarrow> Image" where
  "paint_regions [] i img = img"
| "paint_regions (ofs # rest) i img =
     paint_regions rest (i + 1)
       (set_pixelv img (vadd ofs (vhalf REGION_MAP_VSIZE))
          (mkColor (real_of_int (i + 1) / 255) 1 0 1))"

definition region_map_image :: "Vector2i list \<Rightarrow> Image" where
  "region_map_image offsets =
     paint_regions offsets 0
       (fill (Image_create REGION_MAP_SIZE REGION_MAP_SIZE FORMAT_RG8) COLOR_BLACK)"

text \<open>The copy loop of the region blend map: every pixel with its red set to its green.\<close>

definition region_blend_image :: "Image \<Rightarrow> Image" where
  "region_blend_image region_map_img =
     resize
       (fold (\<lambda>p img. set_pixelv img p
                (let c = get_pixelv region_map_img p in c\<lparr>cr := cg c\<rparr>))
          (concat (map (\<lambda>y. map (\<lambda>x. (x, y)) [0..img_width region_map_img - 1])
             [0..img_height region_map_img - 1]))
          (Image_create REGION_MAP_SIZE REGION_MAP_SIZE FORMAT_RH))
       512 512"

definition update_regions :: "Storage \<Rightarrow> Storage" where
  "update_regions s =
     (let s1 = (if gen_dirty (generated_height_maps s)
                then s\<lparr>generated_height_maps :=
                         Generated_create_layers (height_maps s) (generated_height_maps s)\<rparr>
                else s);
          s2 = (if gen_dirty (generated_control_maps s1)
                then s1\<lparr>generated_control_maps :=
                         Generated_create_layers (control_maps s1) (generated_control_maps s1)\<rparr>
                else s1);
          s3 = (if gen_dirty (generated_color_maps s2)
                then s2\<lparr>generated_color_maps :=
                         Generated_create_layers (color_maps s2) (generated_color_maps s2)\<rparr>
                else s2)
      in if gen_dirty (generated_region_map s3)
         then (let region_map_img = region_map_image (region_offsets s3);
                   s4 = s3\<lparr>generated_region_map :=
                              Generated_create_image region_map_img (generated_region_map s3)\<rparr>
               in if noise_enabled s4
                  then s4\<lparr>generated_region_blend_map :=
                            Generated_create_image (region_blend_image region_map_img)
                              (generated_region_blend_map s4)\<rparr>
                  else s4)
         else s3)"

definition clear_region_caches :: "Storage \<Rightarrow> Storage" where
  "clear_region_caches s =
     s\<lparr>generated_height_maps := Generated_clear (generated_height_maps s),
       generated_control_maps := Generated_clear (generated_control_maps s),
       generated_color_maps := Generated_clear (generated_color_maps s),
       generated_region_map := Generated_clear (generated_region_map s),
       generated_region_blend_map := Generated_clear (generated_region_blend_map s)\<rparr>"

text \<open>
  \<^verbatim>\<open>add_region\<close>. The table \<^verbatim>\<open>COLOR\<close> of default fill colours is declared in
  \<^verbatim>\<open>terrain_storage.h\<close>, which is not among the sources: it is the parameter
  \<open>COLOR_of\<close>.
\<close>

definition add_region :: "(MapType \<Rightarrow> Color) \<Rightarrow> Storage \<Rightarrow> Vector3 \<Rightarrow> Error \<times> Storage" where
  "add_region COLOR_of s p =
     (if has_region s p then (FAILED, s)
      else
        let uv_offset = get_offset_from s p in
        if ABS (fst uv_offset) > REGION_MAP_SIZE div 2 \<or> ABS (snd uv_offset) > REGION_MAP_SIZE div 2
        then (FAILED, s)
        else
          let n = get_region_size s;
              hmap_img = fill (Image_create n n (FORMAT_OF TYPE_HEIGHT)) (COLOR_of TYPE_HEIGHT);
              conmap_img = fill (Image_create n n (FORMAT_OF TYPE_CONTROL)) (COLOR_of TYPE_CONTROL);
              clrmap_img = fill (Image_create n n (FORMAT_OF TYPE_COLOR)) (COLOR_of TYPE_COLOR);
              s1 = s\<lparr>height_maps := height_maps s @ [Some hmap_img],
                      control_maps := control_maps s @ [Some conmap_img],
                      color_maps := color_maps s @ [Some clrmap_img],
                      region_offsets := region_offsets s @ [uv_offset]\<rparr>
          in (OK, update_regions (clear_region_caches s1)))"

definition remove_region :: "Storage \<Rightarrow> Vector3 \<Rightarrow> Storage" where
  "remove_region s p =
     (if get_region_count s = 1 then s
      else
        let index = get_region_index s p in
        if index = - 1 then s
        else
          let s1 = s\<lparr>region_offsets := remove_at (region_offsets s) index,
                      height_maps := remove_at (height_maps s) index,
                      control_maps := remove_at (control_maps s) index,
                      color_maps := remove_at (color_maps s) index\<rparr>
          in update_regions (clear_region_caches s1))"

definition set_region_offsets :: "Storage \<Rightarrow> Vector2i list \<Rightarrow> Storage" where
  "set_region_offsets s p_array =
     update_regions
       (s\<lparr>region_offsets := p_array,
          generated_region_map := Generated_clear (generated_region_map s),
          generated_region_blend_map := Generated_clear (generated_region_blend_map s)\<rparr>)"

text \<open>\<^verbatim>\<open>set_noise_enabled\<close>, without the update of the material.\<close>

definition set_noise_enabled :: "Storage \<Rightarrow> bool \<Rightarrow> Storage" where
  "set_noise_enabled s p_enabled =
     (let s1 = s\<lparr>noise_enabled := p_enabled\<rparr>
      in if noise_enabled s1
         then update_regions
                (s1\<lparr>generated_region_map := Generated_clear (generated_region_map s1),
                    generated_region_blend_map :=
                      Generated_clear (generated_region_blend_map s1)\<rparr>)
         else s1)"

definition in_range :: "int \<Rightarrow> 'a list \<Rightarrow> bool" where
  "in_range i xs = (0 \<le> i \<and> i < int (length xs))"

text \<open>An index out of range, or the type \<open>TYPE_MAX\<close>, is logged and nothing is stored.\<close>

fun set_map_region :: "Storage \<Rightarrow> MapType \<Rightarrow> int \<Rightarrow> Image option \<Rightarrow> Storage" where
  "set_map_region s TYPE_HEIGHT i p_image =
     (if in_range i (height_maps s)
      then s\<lparr>height_maps := (height_maps s)[nat i := p_image]\<rparr> else s)"
| "set_map_region s TYPE_CONTROL i p_image =
     (if in_range i (control_maps s)
      then s\<lparr>control_maps := (control_maps s)[nat i := p_image]\<rparr> else s)"
| "set_map_region s TYPE_COLOR i p_image =
     (if in_range i (color_maps s)
      then s\<lparr>color_maps := (color_maps s)[nat i := p_image]\<rparr> else s)"
| "set_map_region s TYPE_MAX i p_image = s"

fun get_map_region :: "Storage \<Rightarrow> MapType \<Rightarrow> int \<Rightarrow> Image option" where
  "get_map_region s TYPE_HEIGHT i =
     (if in_range i (height_maps s) then height_maps s ! nat i else None)"
| "get_map_region s TYPE_CONTROL i =
     (if in_range i (control_maps s) then control_maps s ! nat i else None)"
| "get_map_region s TYPE_COLOR i =
     (if in_range i (color_maps s) then color_maps s ! nat i else None)"
| "get_map_region s TYPE_MAX i = None"

fun force_update_maps :: "Storage \<Rightarrow> MapType \<Rightarrow> Storage" where
  "force_update_maps s TYPE_HEIGHT =
     update_regions (s\<lparr>generated_height_maps := Generated_clear (generated_height_maps s)\<rparr>)"
| "force_update_maps s TYPE_CONTROL =
     update_regions (s\<lparr>generated_control_maps := Generated_clear (generated_control_maps s)\<rparr>)"
| "force_update_maps s TYPE_COLOR =
     update_regions (s\<lparr>generated_color_maps := Generated_clear (generated_color_maps s)\<rparr>)"
| "force_update_maps s TYPE_MAX =
     update_regions
       (s\<lparr>generated_height_maps := Generated_clear (generated_height_maps s),
          generated_control_maps := Generated_clear (generated_control_maps s),
          generated_color_maps := Generated_clear (generated_color_maps s)\<rparr>)"

definition set_height_maps :: "Storage \<Rightarrow> Image option list \<Rightarrow> Storage" where
  "set_height_maps s p_maps = force_update_maps (s\<lparr>height_maps := p_maps\<rparr>) TYPE_HEIGHT"

definition set_control_maps :: "Storage \<Rightarrow> Image option list \<Rightarrow> Storage" where
  "set_control_maps s p_maps = force_update_maps (s\<lparr>control_maps := p_maps\<rparr>) TYPE_CONTROL"

definition set_color_maps :: "Storage \<Rightarrow> Image option list \<Rightarrow> Storage" where
  "set_color_maps s p_maps = force_update_maps (s\<lparr>color_maps := p_maps\<rparr>) TYPE_COLOR"

fun set_maps :: "Storage \<Rightarrow> MapType \<Rightarrow> Image option list \<Rightarrow> Storage" where
  "set_maps s TYPE_HEIGHT p_maps = set_height_maps s p_maps"
| "set_maps s TYPE_CONTROL p_maps = set_control_maps s p_maps"
| "set_maps s TYPE_COLOR p_maps = set_color_maps s p_maps"
| "set_maps s TYPE_MAX p_maps = s"

subsection \<open>Terrain3DEditor\<close>

datatype Operation = ADD | SUBTRACT | MULTIPLY | REPLACE

datatype Tool = REGION | HEIGHT | TEXTURE | COLOR

text \<open>
  \<^verbatim>\<open>Terrain3DEditor::Brush\<close>. \<open>brush_img_size\<close> is the size of the falloff image as
  \<^verbatim>\<open>set_data\<close> recorded it. The getters (\<^verbatim>\<open>get_size\<close>, \<^verbatim>\<open>get_alpha\<close>, ...) are
  inline in \<^verbatim>\<open>terrain_editor.h\<close>, which is not among the sources: each returns its
  field, and \<^verbatim>\<open>get_alpha\<close> reads the red channel of the falloff image at the position.
\<close>

record Brush =
  brush_size :: int
  brush_index :: int
  brush_opacity :: real
  brush_gamma :: real
  brush_height :: real
  brush_jitter :: real
  brush_image :: "Image option"
  brush_img_size :: Vector2
  brush_align_to_view :: bool
  brush_auto_regions :: bool

record BrushData =
  data_size :: int
  data_index :: int
  data_opacity :: real
  data_gamma :: real
  data_height :: real
  data_jitter :: real
  data_image :: Image
  data_align_with_view :: bool
  data_automatic_regions :: bool

record Editor =
  tool :: Tool
  operation :: Operation
  brush :: Brush
  operation_position :: Vector3
  operation_interval :: real

datatype error = NULL_REFERENCE

definition Brush_set_data :: "BrushData \<Rightarrow> Brush" where
  "Brush_set_data p_data =
     \<lparr>brush_size = data_size p_data, brush_index = data_index p_data,
      brush_opacity = data_opacity p_data, brush_gamma = data_gamma p_data,
      brush_height = data_height p_data, brush_jitter = data_jitter p_data,
      brush_image = Some (data_image p_data),
      brush_img_size = (real_of_int (img_width (data_image p_data)),
                        real_of_int (img_height (data_image p_data))),
      brush_align_to_view = data_align_with_view p_data,
      brush_auto_regions = data_automatic_regions p_data\<rparr>"

definition set_tool :: "Editor \<Rightarrow> Tool \<Rightarrow> Editor" where
  "set_tool ed p_tool = ed\<lparr>tool := p_tool\<rparr>"

definition set_operation :: "Editor \<Rightarrow> Operation \<Rightarrow> Editor" where
  "set_operation ed p_operation = ed\<lparr>operation := p_operation\<rparr>"

text \<open>The dictionary of \<^verbatim>\<open>set_brush_data\<close> is \<open>None\<close> when it is empty.\<close>

definition set_brush_data :: "Editor \<Rightarrow> BrushData option \<Rightarrow> Editor" where
  "set_brush_data ed p_data =
     (case p_data of None \<Rightarrow> ed | Some d \<Rightarrow> ed\<lparr>brush := Brush_set_data d\<rparr>)"

text \<open>
  \<^verbatim>\<open>TERRAIN_MAX_HEIGHT\<close> is declared in \<^verbatim>\<open>terrain_storage.h\<close>, which is not among the
  sources; \<^verbatim>\<open>_update_material\<close> passes it to the shader as \<^verbatim>\<open>terrain_height\<close>, whose
  default in the shader text is 512.
\<close>

definition TERRAIN_MAX_HEIGHT :: int where
  "TERRAIN_MAX_HEIGHT = 512"

text \<open>
  \<^verbatim>\<open>Math::pow\<close> on the reals. Where C's \<^verbatim>\<open>pow\<close> is infinite or NaN (a zero base with
  a negative exponent, a negative base with a fractional exponent) the model gives 0.
\<close>

definition Math_pow :: "real \<Rightarrow> real \<Rightarrow> real" where
  "Math_pow x y =
     (if y = 0 then 1
      else if 0 < x then x powr y
      else if x = 0 then 0
      else if real_of_int \<lfloor>y\<rfloor> = y
           then (if even \<lfloor>y\<rfloor> then (- x) powr y else - ((- x) powr y))
           else 0)"

definition distance_to :: "Vector3 \<Rightarrow> Vector3 \<Rightarrow> real" where
  "distance_to p q =
     (case p of (px, py, pz) \<Rightarrow> case q of (qx, qy, qz) \<Rightarrow>
        sqrt ((px - qx)\<^sup>2 + (py - qy)\<^sup>2 + (pz - qz)\<^sup>2))"

definition is_in_bounds :: "Vector2i \<Rightarrow> Vector2i \<Rightarrow> bool" where
  "is_in_bounds p_position p_max_position =
     (let more_than_min = (fst p_position \<ge> 0 \<and> snd p_position \<ge> 0);
          less_than_max = (fst p_position < fst p_max_position
                           \<and> snd p_position < snd p_max_position)
      in more_than_min \<and> less_than_max)"

definition get_uv_position :: "Vector3 \<Rightarrow> int \<Rightarrow> Vector2" where
  "get_uv_position p_global_position p_region_size =
     (case p_global_position of (x, y, z) \<Rightarrow>
        let rx = x / real_of_int p_region_size + 1 / 2;
            rz = z / real_of_int p_region_size + 1 / 2
        in (rx - real_of_int \<lfloor>rx\<rfloor>, rz - real_of_int \<lfloor>rz\<rfloor>))"

definition rotated :: "Vector2 \<Rightarrow> real \<Rightarrow> Vector2" where
  "rotated v p_by =
     (fst v * cos p_by - snd v * sin p_by, fst v * sin p_by + snd v * cos p_by)"

definition rotate_uv :: "Vector2 \<Rightarrow> real \<Rightarrow> Vector2" where
  "rotate_uv p_uv p_angle =
     (let q = rotated (fst p_uv - 1 / 2, snd p_uv - 1 / 2) p_angle
      in (CLAMP (fst q + 1 / 2) 0 1, CLAMP (snd q + 1 / 2) 0 1))"

definition to_Vector2i :: "Vector2 \<Rightarrow> Vector2i" where
  "to_Vector2i v = (to_int (fst v), to_int (snd v))"

text \<open>C's integer division by two, which truncates toward zero.\<close>

definition half :: "int \<Rightarrow> int" where
  "half n = (if 0 \<le> n then n div 2 else - ((- n) div 2))"

text \<open>
  The blend of lines 160 to 212: the colour written back for the source pixel \<open>src\<close>.
  \<open>h\<close> is the brush height over \<^verbatim>\<open>TERRAIN_MAX_HEIGHT\<close>, \<open>opac\<close> the opacity.
\<close>

definition blend_height :: "Operation \<Rightarrow> real \<Rightarrow> real \<Rightarrow> real \<Rightarrow> real \<Rightarrow> real" where
  "blend_height op h opac alpha srcf =
     (case op of
        ADD \<Rightarrow> srcf + (h * alpha * opac)
      | SUBTRACT \<Rightarrow> srcf - (h * alpha * opac)
      | MULTIPLY \<Rightarrow> srcf * (alpha * h * opac + 1)
      | REPLACE \<Rightarrow> lerp srcf h alpha)"

definition alpha_clip_of :: "real \<Rightarrow> real" where
  "alpha_clip_of alpha = (if alpha < 1 / 10 then 0 else 1)"

definition blend_control :: "Operation \<Rightarrow> int \<Rightarrow> real \<Rightarrow> real \<Rightarrow> Color \<Rightarrow> Color" where
  "blend_control op index opac alpha src =
     (let alpha_clip = alpha_clip_of alpha;
          index_base = to_int (cr src * 255);
          index_overlay = to_int (cg src * 255)
      in case op of
           ADD \<Rightarrow>
             (let dest_index = to_int (lerp (real_of_int index_overlay) (real_of_int index) alpha_clip)
              in if dest_index = index_base
                 then src\<lparr>cb := lerp (cb src) 0 alpha_clip\<rparr>
                 else src\<lparr>cg := real_of_int dest_index / 255,
                          cb := lerp (cb src) (CLAMP (cb src + opac * alpha) 0 1) alpha_clip\<rparr>)
         | REPLACE \<Rightarrow>
             (let dest_index = to_int (lerp (real_of_int index_base) (real_of_int index) alpha_clip)
              in src\<lparr>cr := real_of_int dest_index / 255,
                      cb := lerp (cb src) 0 alpha_clip\<rparr>)
         | _ \<Rightarrow> src)"

definition blend :: "MapType \<Rightarrow> Operation \<Rightarrow> int \<Rightarrow> real \<Rightarrow> real \<Rightarrow> real \<Rightarrow> Color \<Rightarrow> Color" where
  "blend p_map_type op index h opac alpha src =
     (if p_map_type = TYPE_HEIGHT
      then mkColor (CLAMP (blend_height op h opac alpha (cr src)) 0 1) 0 0 1
      else if p_map_type = TYPE_CONTROL
      then blend_control op index opac alpha src
      else src)"

text \<open>
  The brush loop of \<^verbatim>\<open>_operate_map\<close>. Its local state is the storage, the variable
  \<^verbatim>\<open>region_index\<close> and the reference \<^verbatim>\<open>map\<close>: \<open>st_map\<close> is the slot of the tile
  list the reference was fetched from, \<open>None\<close> when \<^verbatim>\<open>get_map_region\<close> returned the
  null reference. The loop only appends to the tile lists, so a slot keeps its image object.
  \<open>st_accesses\<close> is not in the source: it records, in order, the pixel accesses the loop
  makes through \<^verbatim>\<open>map\<close> and through the falloff image.
\<close>

datatype Access = TileRead nat Vector2i | TileWrite nat Vector2i | MaskRead Vector2i

record Stroke =
  st_storage :: Storage
  st_region_index :: int
  st_map :: "nat option"
  st_accesses :: "Access list"

definition fetch_map :: "Storage \<Rightarrow> MapType \<Rightarrow> int \<Rightarrow> nat option" where
  "fetch_map s t i = (case get_map_region s t i of None \<Rightarrow> None | Some img \<Rightarrow> Some (nat i))"

fun put_tile :: "Storage \<Rightarrow> MapType \<Rightarrow> nat \<Rightarrow> Image \<Rightarrow> Storage" where
  "put_tile s TYPE_HEIGHT k img = s\<lparr>height_maps := (height_maps s)[k := Some img]\<rparr>"
| "put_tile s TYPE_CONTROL k img = s\<lparr>control_maps := (control_maps s)[k := Some img]\<rparr>"
| "put_tile s TYPE_COLOR k img = s\<lparr>color_maps := (color_maps s)[k := Some img]\<rparr>"
| "put_tile s TYPE_MAX k img = s"

text \<open>
  Lines 130 to 141: the region of the cell. \<open>None\<close> is \<^verbatim>\<open>continue\<close>; otherwise the
  storage (with the region \<^verbatim>\<open>add_region\<close> created, if any) and \<^verbatim>\<open>new_region_index\<close>.
\<close>

definition resolve_region ::
  "(MapType \<Rightarrow> Color) \<Rightarrow> Brush \<Rightarrow> Storage \<Rightarrow> Vector3 \<Rightarrow> (Storage \<times> int) option" where
  "resolve_region COLOR_of b s brush_global_position =
     (let new_region_index = get_region_index s brush_global_position in
      if new_region_index = - 1
      then (if \<not> brush_auto_regions b then None
            else (case add_region COLOR_of s brush_global_position of
                    (err, s') \<Rightarrow>
                      if err \<noteq> OK then None
                      else Some (s', get_region_index s' brush_global_position)))
      else Some (s, new_region_index))"

text \<open>
  Lines 148 to 153: the pixel of the tile under the cell, and the pixel of the falloff
  image for the cell (x, y) after the rotation.
\<close>

definition map_pixel_position :: "Vector3 \<Rightarrow> int \<Rightarrow> Vector2i" where
  "map_pixel_position brush_global_position rsize =
     (let uv_position = get_uv_position brush_global_position rsize
      in to_Vector2i (fst uv_position * real_of_int rsize, snd uv_position * real_of_int rsize))"

definition brush_pixel_position :: "Brush \<Rightarrow> real \<Rightarrow> Vector2i \<Rightarrow> Vector2i" where
  "brush_pixel_position b rot xy =
     (let brush_uv = (real_of_int (fst xy) / real_of_int (brush_size b),
                      real_of_int (snd xy) / real_of_int (brush_size b));
          ruv = rotate_uv brush_uv rot
      in to_Vector2i (fst ruv * fst (brush_img_size b), snd ruv * snd (brush_img_size b)))"

text \<open>Lines 148 to 215: the pixel of the cell, read, blended and written back.\<close>

definition paint_cell ::
  "Editor \<Rightarrow> MapType \<Rightarrow> real \<Rightarrow> int \<Rightarrow> Vector3 \<Rightarrow> Vector2i \<Rightarrow> Stroke \<Rightarrow> error + Stroke" where
  "paint_cell ed p_map_type rot rsize brush_global_position xy k =
     (let b = brush ed;
          mpp = map_pixel_position brush_global_position rsize
      in if is_in_bounds mpp (rsize, rsize)
         then
           (let bpp = brush_pixel_position b rot xy
            in if \<not> is_in_bounds bpp (to_Vector2i (brush_img_size b))
               then Inr k
               else
                 (case brush_image b of
                    None \<Rightarrow> Inl NULL_REFERENCE
                  | Some falloff \<Rightarrow>
                      (let alpha = Math_pow (cr (get_pixelv falloff bpp)) (brush_gamma b)
                       in case st_map k of
                            None \<Rightarrow> Inl NULL_REFERENCE
                          | Some slot \<Rightarrow>
                              (case get_map_region (st_storage k) p_map_type (int slot) of
                                 None \<Rightarrow> Inl NULL_REFERENCE
                               | Some img \<Rightarrow>
                                   (let src = get_pixelv img mpp;
                                        dest = blend p_map_type (operation ed) (brush_index b)
                                                 (brush_height b / real_of_int TERRAIN_MAX_HEIGHT)
                                                 (brush_opacity b) alpha src
                                    in Inr (k\<lparr>st_storage :=
                                                put_tile (st_storage k) p_map_type slot
                                                  (set_pixelv img mpp dest),
                                              st_accesses :=
                                                st_accesses k @
                                                  [MaskRead bpp, TileRead slot mpp,
                                                   TileWrite slot mpp]\<rparr>))))))
         else Inr k)"

text \<open>One pass of the loop body, for the cell (x, y) of the footprint.\<close>

definition brush_cell ::
  "(MapType \<Rightarrow> Color) \<Rightarrow> Editor \<Rightarrow> MapType \<Rightarrow> Vector3 \<Rightarrow> real \<Rightarrow> int \<Rightarrow> Vector2i \<Rightarrow> Stroke
     \<Rightarrow> error + Stroke" where
  "brush_cell COLOR_of ed p_map_type p_global_position rot rsize xy k =
     (let s = brush_size (brush ed);
          brush_offset = (fst xy - half s, snd xy - half s);
          brush_global_position =
            (case p_global_position of (px, py, pz) \<Rightarrow>
               (px + real_of_int (fst brush_offset), py, pz + real_of_int (snd brush_offset)))
      in case resolve_region COLOR_of (brush ed) (st_storage k) brush_global_position of
           None \<Rightarrow> Inr k
         | Some (s', new_region_index) \<Rightarrow>
             paint_cell ed p_map_type rot rsize brush_global_position xy
               (if new_region_index \<noteq> st_region_index k
                then k\<lparr>st_storage := s', st_region_index := new_region_index,
                       st_map := fetch_map s' p_map_type new_region_index\<rparr>
                else k\<lparr>st_storage := s'\<rparr>))"

fun brush_loop ::
  "(MapType \<Rightarrow> Color) \<Rightarrow> Editor \<Rightarrow> MapType \<Rightarrow> Vector3 \<Rightarrow> real \<Rightarrow> int \<Rightarrow> Vector2i list \<Rightarrow> Stroke
     \<Rightarrow> error + Stroke" where
  "brush_loop COLOR_of ed t gp rot rsize [] k = Inr k"
| "brush_loop COLOR_of ed t gp rot rsize (xy # cells) k =
     (case brush_cell COLOR_of ed t gp rot rsize xy k of
        Inl e \<Rightarrow> Inl e
      | Inr k' \<Rightarrow> brush_loop COLOR_of ed t gp rot rsize cells k')"

text \<open>The cells of the footprint in the order of the two nested loops, x outermost.\<close>

definition footprint :: "int \<Rightarrow> Vector2i list" where
  "footprint s = concat (map (\<lambda>x. map (\<lambda>y. (x, y)) [0..s - 1]) [0..s - 1])"

text \<open>
  \<^verbatim>\<open>_operate_map\<close>. \<open>randf\<close> is the draw of \<^verbatim>\<open>UtilityFunctions::randf()\<close>. The
  result is the state of the stroke after \<^verbatim>\<open>force_update_maps\<close>, or the error
  of dereferencing a null image reference.
\<close>

definition operate_map ::
  "(MapType \<Rightarrow> Color) \<Rightarrow> real \<Rightarrow> Editor \<Rightarrow> Storage \<Rightarrow> MapType \<Rightarrow> Vector3 \<Rightarrow> real
     \<Rightarrow> error + Stroke" where
  "operate_map COLOR_of randf ed s p_map_type p_global_position p_camera_direction =
     (let rsize = get_region_size s;
          region_index = get_region_index s p_global_position
      in if region_index = - 1
         then Inr \<lparr>st_storage = s, st_region_index = region_index, st_map = None,
                   st_accesses = []\<rparr>
         else
           (let rot0 = randf * pi * brush_jitter (brush ed);
                rot = (if brush_align_to_view (brush ed) then rot0 + p_camera_direction else rot0)
            in case brush_loop COLOR_of ed p_map_type p_global_position rot rsize
                      (footprint (brush_size (brush ed)))
                      \<lparr>st_storage = s, st_region_index = region_index,
                       st_map = fetch_map s p_map_type region_index, st_accesses = []\<rparr> of
                 Inl e \<Rightarrow> Inl e
               | Inr k \<Rightarrow> Inr (k\<lparr>st_storage := force_update_maps (st_storage k) p_map_type\<rparr>)))"

definition operate_region :: "(MapType \<Rightarrow> Color) \<Rightarrow> Editor \<Rightarrow> Storage \<Rightarrow> Vector3 \<Rightarrow> Storage" where
  "operate_region COLOR_of ed s p_global_position =
     (let has = has_region s p_global_position;
          s1 = (if operation ed = ADD \<and> \<not> has
                then snd (add_region COLOR_of s p_global_position) else s)
      in if operation ed = SUBTRACT \<and> has then remove_region s1 p_global_position else s1)"

text \<open>
  \<^verbatim>\<open>operate\<close>: the editor with its position tracker moved, and the storage of the
  terrain after the tool has run.
\<close>

definition track :: "Editor \<Rightarrow> Vector3 \<Rightarrow> Editor" where
  "track ed p_global_position =
     (let ed1 = (if operation_position ed = (0, 0, 0)
                 then ed\<lparr>operation_position := p_global_position\<rparr> else ed);
          ed2 = ed1\<lparr>operation_interval := distance_to p_global_position (operation_position ed1)\<rparr>
      in ed2\<lparr>operation_position := p_global_position\<rparr>)"

definition run_map ::
  "(MapType \<Rightarrow> Color) \<Rightarrow> real \<Rightarrow> Editor \<Rightarrow> Storage \<Rightarrow> MapType \<Rightarrow> Vector3 \<Rightarrow> real \<Rightarrow> bool
     \<Rightarrow> error + Storage" where
  "run_map COLOR_of randf ed s t p cam p_continuous_operation =
     (if p_continuous_operation
      then (case operate_map COLOR_of randf ed s t p cam of
              Inl e \<Rightarrow> Inl e | Inr k \<Rightarrow> Inr (st_storage k))
      else Inr s)"

definition operate ::
  "(MapType \<Rightarrow> Color) \<Rightarrow> real \<Rightarrow> Editor \<Rightarrow> Storage \<Rightarrow> Vector3 \<Rightarrow> real \<Rightarrow> bool
     \<Rightarrow> error + (Editor \<times> Storage)" where
  "operate COLOR_of randf ed s p_global_position p_camera_direction p_continuous_operation =
     (let ed' = track ed p_global_position
      in case (case tool ed' of
                 REGION \<Rightarrow>
                   Inr (if \<not> p_continuous_operation
                        then operate_region COLOR_of ed' s p_global_position else s)
               | HEIGHT \<Rightarrow>
                   run_map COLOR_of randf ed' s TYPE_HEIGHT p_global_position
                     p_camera_direction p_continuous_operation
               | TEXTURE \<Rightarrow>
                   run_map COLOR_of randf ed' s TYPE_CONTROL p_global_position
                     p_camera_direction p_continuous_operation
               | COLOR \<Rightarrow>
                   run_map COLOR_of randf ed' s TYPE_COLOR p_global_position
                     p_camera_direction p_continuous_operation) of
           Inl e \<Rightarrow> Inl e
         | Inr s' \<Rightarrow> Inr (ed', s'))"

subsection \<open>Properties stated about the code\<close>

text \<open>The invariant of the region directory: the four parallel lists have one length.\<close>

definition lists_aligned :: "Storage \<Rightarrow> bool" where
  "lists_aligned s =
     (length (height_maps s) = length (region_offsets s) \<and>
      length (control_maps s) = length (region_offsets s) \<and>
      length (color_maps s) = length (region_offsets s))"

text \<open>
  The storages reached from \<open>s0\<close> by the public operations, where a setter of a whole
  list is given a list as long as the region directory.
\<close>

inductive reachable :: "Storage \<Rightarrow> Storage \<Rightarrow> bool" for s0 :: Storage where
  start: "reachable s0 s0"
| by_add_region: "reachable s0 s \<Longrightarrow> reachable s0 (snd (add_region COLOR_of s p))"
| by_remove_region: "reachable s0 s \<Longrightarrow> reachable s0 (remove_region s p)"
| by_operate:
    "reachable s0 s \<Longrightarrow> operate COLOR_of randf ed s p cam cont = Inr (ed', s')
       \<Longrightarrow> reachable s0 s'"
| by_set_map_region: "reachable s0 s \<Longrightarrow> reachable s0 (set_map_region s t i img)"
| by_force_update_maps: "reachable s0 s \<Longrightarrow> reachable s0 (force_update_maps s t)"
| by_set_region_size: "reachable s0 s \<Longrightarrow> reachable s0 (set_region_size s n)"
| by_set_noise_enabled: "reachable s0 s \<Longrightarrow> reachable s0 (set_noise_enabled s e)"
| by_set_maps:
    "reachable s0 s \<Longrightarrow> length p_maps = length (region_offsets s)
       \<Longrightarrow> reachable s0 (set_maps s t p_maps)"
| by_set_height_maps:
    "reachable s0 s \<Longrightarrow> length p_maps = length (region_offsets s)
       \<Longrightarrow> reachable s0 (set_height_maps s p_maps)"
| by_set_control_maps:
    "reachable s0 s \<Longrightarrow> length p_maps = length (region_offsets s)
       \<Longrightarrow> reachable s0 (set_control_maps s p_maps)"
| by_set_color_maps:
    "reachable s0 s \<Longrightarrow> length p_maps = length (region_offsets s)
       \<Longrightarrow> reachable s0 (set_color_maps s p_maps)"
| by_set_region_offsets:
    "reachable s0 s \<Longrightarrow> length p_array = length (region_offsets s)
       \<Longrightarrow> reachable s0 (set_region_offsets s p_array)"



fun tiles_of :: "Storage \<Rightarrow> MapType \<Rightarrow> Image option list" where
  "tiles_of s TYPE_HEIGHT = height_maps s"
| "tiles_of s TYPE_CONTROL = control_maps s"
| "tiles_of s TYPE_COLOR = color_maps s"
| "tiles_of s TYPE_MAX = []"





text \<open>
  The region map as a cache of the offset list. A storage is coherent when its region map
  image, if it has one, is the image \<^verbatim>\<open>_update_regions\<close> paints for its offsets;
  \<open>invalidated\<close> is the storage after \<^verbatim>\<open>generated_region_map.clear()\<close>. The offsets
  are in order when no two are equal, each has its pixel inside the region map, and there
  are at most 255 of them, the most that (i + 1) / 255 can tell apart in one byte.
\<close>

definition cache_coherent :: "Storage \<Rightarrow> bool" where
  "cache_coherent s =
     (gen_image (generated_region_map s) = None \<or>
      gen_image (generated_region_map s) = Some (region_map_image (region_offsets s)))"

definition invalidated :: "Storage \<Rightarrow> Storage" where
  "invalidated s = s\<lparr>generated_region_map := Generated_clear (generated_region_map s)\<rparr>"

definition offsets_ok :: "Vector2i list \<Rightarrow> bool" where
  "offsets_ok offsets =
     (distinct offsets \<and> int (length offsets) \<le> 255 \<and>
      list_all (\<lambda>ofs. is_in_bounds (vadd ofs (vhalf REGION_MAP_VSIZE)) REGION_MAP_VSIZE) offsets)"

text \<open>The result of \<^verbatim>\<open>get_region_index\<close> behind its guard on the offset.\<close>

definition guarded :: "Vector2i \<Rightarrow> int \<Rightarrow> int" where
  "guarded uv_offset i =
     (if ABS (fst uv_offset) > REGION_MAP_SIZE div 2 \<or> ABS (snd uv_offset) > REGION_MAP_SIZE div 2
      then - 1 else i)"




subsection \<open>Example states\<close>

text \<open>
  A table of fill colours (black height, black control, white colour), a storage with no
  region and no generated texture, and the storages that \<^verbatim>\<open>add_region\<close> makes of it at
  the origin and at x = 512, which is offset 8 for regions of size 64.
\<close>

definition example_COLOR :: "MapType \<Rightarrow> Color" where
  "example_COLOR t = (if t = TYPE_COLOR then mkColor 1 1 1 1 else mkColor 0 0 0 1)"

definition example_Generated :: Generated where
  "example_Generated = \<lparr>gen_rid = False, gen_image = None, gen_dirty = False\<rparr>"

definition example_storage :: Storage where
  "example_storage =
     \<lparr>region_size = SIZE_64, region_offsets = [], height_maps = [], control_maps = [],
      color_maps = [], noise_enabled = False,
      generated_height_maps = example_Generated, generated_control_maps = example_Generated,
      generated_color_maps = example_Generated, generated_region_map = example_Generated,
      generated_region_blend_map = example_Generated\<rparr>"

definition one_region :: Storage where
  "one_region = snd (add_region example_COLOR example_storage (0, 0, 0))"

definition edge_region :: Storage where
  "edge_region = snd (add_region example_COLOR example_storage (512, 0, 0))"

text \<open>The 256 offsets whose pixel is inside the region map, row by row.\<close>

definition full_grid :: "Vector2i list" where
  "full_grid = map (\<lambda>n. (int n mod 16 - 8, int n div 16 - 8)) [0..<256]"

text \<open>A one-pixel image, and an editor whose brush is one cell wide with a full falloff.\<close>

definition example_pixel :: Image where
  "example_pixel = fill (Image_create 1 1 FORMAT_RH) (mkColor 1 0 0 1)"


section \<open>Theorems\<close>

subsection \<open>Helper lemmas\<close>

lemma to_int_of_int [simp]: "to_int (real_of_int n) = n"
  by (simp add: to_int_def)

lemma lerp_0 [simp]: "lerp x y 0 = x"
  by (simp add: lerp_def)

lemma lerp_1 [simp]: "lerp x y 1 = y"
  by (simp add: lerp_def)

lemma Math_pow_one [simp]: "Math_pow x 1 = x"
  by (simp add: Math_pow_def)


lemma length_remove_at:
  "length (remove_at xs i) = (if 0 \<le> i \<and> i < int (length xs) then length xs - 1 else length xs)"
  by (auto simp: remove_at_def)

lemma update_regions_frame [simp]:
  "region_offsets (update_regions s) = region_offsets s"
  "height_maps (update_regions s) = height_maps s"
  "control_maps (update_regions s) = control_maps s"
  "color_maps (update_regions s) = color_maps s"
  "region_size (update_regions s) = region_size s"
  "noise_enabled (update_regions s) = noise_enabled s"
  by (simp_all add: update_regions_def Let_def)

lemma clear_region_caches_frame [simp]:
  "region_offsets (clear_region_caches s) = region_offsets s"
  "height_maps (clear_region_caches s) = height_maps s"
  "control_maps (clear_region_caches s) = control_maps s"
  "color_maps (clear_region_caches s) = color_maps s"
  "region_size (clear_region_caches s) = region_size s"
  "noise_enabled (clear_region_caches s) = noise_enabled s"
  by (simp_all add: clear_region_caches_def)

text \<open>Unfolding the storage operations on the example states.\<close>

lemmas eval_defs = add_region_def has_region_def get_region_index_def get_offset_from_def
  get_region_size_def example_storage_def example_Generated_def ABS_def REGION_MAP_SIZE_def
  Let_def clear_region_caches_def update_regions_def Generated_clear_def
  Generated_create_layers_def Generated_create_image_def region_map_image_def
  REGION_MAP_VSIZE_def vhalf_def vadd_def set_pixelv_def get_pixelv_def in_image_def fill_def
  Image_create_def index_from_image_def Color_default_def COLOR_BLACK_def mkColor_def
  to_int_def to_byte_def CLAMP_def example_COLOR_def

lemma one_region_offsets: "region_offsets one_region = [(0, 0)]"
  by (simp add: one_region_def eval_defs)

subsection \<open>The region directory\<close>

text \<open>
  C3: whenever exactly one region exists, \<^verbatim>\<open>remove_region\<close> changes nothing, whatever
  the position: the storage after the call is the storage before it, so the region
  offsets, the three tile lists and the region count are the same. And
  \<^verbatim>\<open>remove_region\<close> never takes a directory that has a region to one that has none.
\<close>

theorem remove_region_last_noop:
  "(get_region_count s = 1 \<longrightarrow> remove_region s p = s) \<and>
   (1 \<le> get_region_count s \<longrightarrow> 1 \<le> get_region_count (remove_region s p))"
  by (auto simp: remove_region_def get_region_count_def Let_def length_remove_at)

theorem remove_region_last_noop_witness:
  "get_region_count one_region = 1 \<and> remove_region one_region (100, 0, 0) = one_region \<and>
   1 \<le> get_region_count (remove_region one_region (100, 0, 0))"
proof -
  have c: "get_region_count one_region = 1"
    by (simp add: get_region_count_def one_region_offsets)
  from remove_region_last_noop [of one_region "(100, 0, 0)"] c
  show ?thesis by simp
qed

subsection \<open>The blend of a brush write\<close>

text \<open>
  C6, as the code has it: on the colour map the brush writes back the pixel it read, for
  every operation, brush index, height, opacity and falloff. The code has no branch for
  \<open>TYPE_COLOR\<close> and the brush has no tint.
\<close>

theorem color_blend_identity:
  "blend TYPE_COLOR op idx h opac alpha src = src"
  by (simp add: blend_def)

text \<open>
  C6 as stated fails: no colour-map write with \<open>alpha * opac > 0\<close> differs from the
  pixel that was read.
\<close>

theorem color_blend_counterexample:
  "\<not> (\<exists>op idx h opac alpha src.
        0 < alpha * opac \<and> blend TYPE_COLOR op idx h opac alpha src \<noteq> src)"
  by (simp add: blend_def)






subsection \<open>The editor\<close>

text \<open>
  C9: a call of \<^verbatim>\<open>operate\<close> that does not continue a stroke returns, and leaves the
  position tracker at the position it was given, whatever the tracker held before.
\<close>

theorem operate_tracks_position:
  "\<exists>ed' s'. operate COLOR_of randf ed s p cam False = Inr (ed', s') \<and>
             operation_position ed' = p"
  by (cases "tool ed") (simp_all add: operate_def track_def run_map_def Let_def)

subsection \<open>The invariant of the parallel lists\<close>

lemma force_update_maps_frame [simp]:
  "region_offsets (force_update_maps s t) = region_offsets s"
  "height_maps (force_update_maps s t) = height_maps s"
  "control_maps (force_update_maps s t) = control_maps s"
  "color_maps (force_update_maps s t) = color_maps s"
  "region_size (force_update_maps s t) = region_size s"
  by (cases t; simp)+

lemma add_region_aligned:
  "lists_aligned s \<Longrightarrow> lists_aligned (snd (add_region COLOR_of s p))"
  by (simp add: add_region_def lists_aligned_def Let_def)

lemma remove_region_aligned:
  "lists_aligned s \<Longrightarrow> lists_aligned (remove_region s p)"
  by (simp add: remove_region_def lists_aligned_def Let_def length_remove_at)

lemma set_map_region_aligned:
  "lists_aligned s \<Longrightarrow> lists_aligned (set_map_region s t i img)"
  by (cases t) (simp_all add: lists_aligned_def)

lemma force_update_maps_aligned:
  "lists_aligned s \<Longrightarrow> lists_aligned (force_update_maps s t)"
  by (simp add: lists_aligned_def)

lemma put_tile_aligned:
  "lists_aligned s \<Longrightarrow> lists_aligned (put_tile s t k img)"
  by (cases t) (simp_all add: lists_aligned_def)

lemma resolve_region_aligned:
  "resolve_region COLOR_of b s p = Some (s', i) \<Longrightarrow> lists_aligned s \<Longrightarrow> lists_aligned s'"
  using add_region_aligned [of s COLOR_of p]
  by (auto simp: resolve_region_def Let_def split: if_splits prod.splits)

lemma paint_cell_aligned:
  "paint_cell ed t rot rsize bgp xy k = Inr k' \<Longrightarrow> lists_aligned (st_storage k)
     \<Longrightarrow> lists_aligned (st_storage k')"
  by (auto simp: paint_cell_def Let_def put_tile_aligned split: if_splits option.splits)

lemma brush_cell_aligned:
  "brush_cell COLOR_of ed t gp rot rsize xy k = Inr k' \<Longrightarrow> lists_aligned (st_storage k)
     \<Longrightarrow> lists_aligned (st_storage k')"
  by (auto simp: brush_cell_def Let_def split: option.splits prod.splits if_splits
      dest!: resolve_region_aligned dest: paint_cell_aligned)

lemma brush_loop_aligned:
  "brush_loop COLOR_of ed t gp rot rsize cells k = Inr k' \<Longrightarrow> lists_aligned (st_storage k)
     \<Longrightarrow> lists_aligned (st_storage k')"
proof (induction cells arbitrary: k)
  case Nil
  then show ?case by simp
next
  case (Cons xy cells)
  then show ?case
    by (auto split: sum.splits dest: brush_cell_aligned)
qed

lemma operate_map_aligned:
  "operate_map COLOR_of randf ed s t gp cam = Inr k \<Longrightarrow> lists_aligned s
     \<Longrightarrow> lists_aligned (st_storage k)"
  by (auto simp: operate_map_def Let_def force_update_maps_aligned
      split: if_splits sum.splits dest!: brush_loop_aligned)

lemma operate_region_aligned:
  "lists_aligned s \<Longrightarrow> lists_aligned (operate_region COLOR_of ed s p)"
  by (simp add: operate_region_def Let_def add_region_aligned remove_region_aligned)

lemma run_map_aligned:
  "run_map COLOR_of randf ed s t p cam cont = Inr s' \<Longrightarrow> lists_aligned s \<Longrightarrow> lists_aligned s'"
  by (auto simp: run_map_def split: if_splits sum.splits dest: operate_map_aligned)

lemma operate_aligned:
  "operate COLOR_of randf ed s p cam cont = Inr (ed', s') \<Longrightarrow> lists_aligned s
     \<Longrightarrow> lists_aligned s'"
  by (cases "tool (track ed p)")
     (auto simp: operate_def Let_def operate_region_aligned split: sum.splits if_splits
       dest: run_map_aligned)

lemma setters_aligned:
  "lists_aligned s \<Longrightarrow> length p_maps = length (region_offsets s) \<Longrightarrow>
     lists_aligned (set_height_maps s p_maps) \<and> lists_aligned (set_control_maps s p_maps) \<and>
     lists_aligned (set_color_maps s p_maps) \<and> lists_aligned (set_maps s t p_maps)"
  by (cases t)
     (simp_all add: lists_aligned_def set_height_maps_def set_control_maps_def set_color_maps_def)

lemma set_region_offsets_aligned:
  "lists_aligned s \<Longrightarrow> length p_array = length (region_offsets s) \<Longrightarrow>
     lists_aligned (set_region_offsets s p_array)"
  by (simp add: lists_aligned_def set_region_offsets_def)

lemma set_region_size_aligned:
  "lists_aligned s \<Longrightarrow> lists_aligned (set_region_size s n)"
  by (simp add: lists_aligned_def set_region_size_def)

lemma set_noise_enabled_aligned:
  "lists_aligned s \<Longrightarrow> lists_aligned (set_noise_enabled s e)"
  by (simp add: lists_aligned_def set_noise_enabled_def Let_def)

text \<open>
  C2, amended: the three tile lists and the offset list have one length in every state
  reached from a state where they do by \<^verbatim>\<open>add_region\<close>, \<^verbatim>\<open>remove_region\<close>,
  \<^verbatim>\<open>operate\<close>, \<^verbatim>\<open>set_map_region\<close>, \<^verbatim>\<open>force_update_maps\<close>, \<^verbatim>\<open>set_region_size\<close>,
  \<^verbatim>\<open>set_noise_enabled\<close>, and by the setters of a whole list (\<^verbatim>\<open>set_maps\<close>, \<^verbatim>\<open>set_height_maps\<close>,
  \<^verbatim>\<open>set_control_maps\<close>, \<^verbatim>\<open>set_color_maps\<close>, \<^verbatim>\<open>set_region_offsets\<close>) when the list
  they are given is as long as the region directory.
\<close>

theorem reachable_lists_aligned:
  assumes "lists_aligned s0" and "reachable s0 s"
  shows "lists_aligned s"
  using assms(2,1)
proof (induction rule: reachable.induct)
  case start
  then show ?case by simp
next
  case (by_operate s COLOR_of randf ed p cam cont ed' s')
  then show ?case by (blast intro: operate_aligned)
next
  case (by_set_maps s p_maps t)
  then show ?case using setters_aligned by blast
next
  case (by_set_height_maps s p_maps)
  then show ?case using setters_aligned by blast
next
  case (by_set_control_maps s p_maps)
  then show ?case using setters_aligned by blast
next
  case (by_set_color_maps s p_maps)
  then show ?case using setters_aligned by blast
qed (simp_all add: add_region_aligned remove_region_aligned set_map_region_aligned
      force_update_maps_aligned set_region_offsets_aligned set_region_size_aligned
      set_noise_enabled_aligned)

lemma example_storage_aligned: "lists_aligned example_storage"
  by (simp add: lists_aligned_def example_storage_def)

lemma add_remove_offsets:
  "region_offsets (remove_region (snd (add_region example_COLOR one_region (100, 0, 0))) (0, 0, 0))
     = [(2, 0)]"
  by (simp add: one_region_def remove_region_def get_region_count_def remove_at_def eval_defs)

theorem reachable_lists_aligned_witness:
  "lists_aligned example_storage \<and>
   reachable example_storage
     (remove_region (snd (add_region example_COLOR one_region (100, 0, 0))) (0, 0, 0)) \<and>
   lists_aligned (remove_region (snd (add_region example_COLOR one_region (100, 0, 0))) (0, 0, 0)) \<and>
   region_offsets (remove_region (snd (add_region example_COLOR one_region (100, 0, 0))) (0, 0, 0))
     = [(2, 0)]"
proof -
  have r: "reachable example_storage
     (remove_region (snd (add_region example_COLOR one_region (100, 0, 0))) (0, 0, 0))"
    unfolding one_region_def
    by (intro by_remove_region by_add_region start)
  from reachable_lists_aligned [OF example_storage_aligned r] r example_storage_aligned
    add_remove_offsets
  show ?thesis by blast
qed

text \<open>
  C2 as stated fails: \<^verbatim>\<open>set_height_maps\<close> stores the list it is given, of any
  length. On the storage with no region it leaves one height tile beside no offset.
\<close>

theorem lists_aligned_counterexample:
  "lists_aligned example_storage \<and>
   \<not> lists_aligned (set_height_maps example_storage [Some example_pixel])"
  by (simp add: lists_aligned_def set_height_maps_def example_storage_def)

subsection \<open>The pixel accesses of a stroke\<close>





lemma tiles_of_force_update_maps [simp]:
  "tiles_of (force_update_maps s t') t = tiles_of s t"
  by (cases t) simp_all

lemma get_region_size_force_update_maps [simp]:
  "get_region_size (force_update_maps s t) = get_region_size s"
  by (simp add: get_region_size_def)

lemma tiles_of_put_tile [simp]:
  "tiles_of (put_tile s t slot img) t = (tiles_of s t)[slot := Some img]"
  by (cases t) simp_all

lemma get_region_size_put_tile [simp]:
  "get_region_size (put_tile s t slot img) = get_region_size s"
  by (cases t) (simp_all add: get_region_size_def)






lemma set_pixelv_dims [simp]:
  "img_width (set_pixelv img p c) = img_width img"
  "img_height (set_pixelv img p c) = img_height img"
  by (simp_all add: set_pixelv_def)















subsection \<open>The region map against the scan of the offsets\<close>

lemma paint_regions_dims [simp]:
  "img_width (paint_regions offs i img) = img_width img"
  "img_height (paint_regions offs i img) = img_height img"
  "img_format (paint_regions offs i img) = img_format img"
  by (induction offs arbitrary: i img; simp add: set_pixelv_def)+

lemma vadd_inj [simp]: "vadd p h = vadd q h \<longleftrightarrow> p = q"
  by (auto simp: vadd_def prod_eq_iff)

lemma paint_regions_other:
  "uv \<notin> set offs \<Longrightarrow>
     img_data (paint_regions offs i img) (vadd uv h0) = img_data img (vadd uv h0)"
  if "h0 = vhalf REGION_MAP_VSIZE"
  using that
  by (induction offs arbitrary: i img) (auto simp: set_pixelv_def)

lemma paint_regions_nth:
  "distinct offs \<Longrightarrow> j < length offs \<Longrightarrow> in_image img (vadd (offs ! j) (vhalf REGION_MAP_VSIZE)) \<Longrightarrow>
     img_data (paint_regions offs i img) (vadd (offs ! j) (vhalf REGION_MAP_VSIZE))
       = encode (img_format img) (mkColor (real_of_int (i + int j + 1) / 255) 1 0 1)"
proof (induction offs arbitrary: i img j)
  case Nil
  then show ?case by simp
next
  case (Cons ofs rest)
  show ?case
  proof (cases j)
    case 0
    with Cons.prems show ?thesis
      by (simp add: paint_regions_other set_pixelv_def)
  next
    case (Suc j')
    with Cons.prems have d: "distinct rest" and l: "j' < length rest"
      and m: "in_image (set_pixelv img (vadd ofs (vhalf REGION_MAP_VSIZE))
                 (mkColor (real_of_int (i + 1) / 255) 1 0 1)) (vadd (rest ! j') (vhalf REGION_MAP_VSIZE))"
      by (simp_all add: in_image_def set_pixelv_def)
    from Cons.IH [OF d l m, of "i + 1"] Suc show ?thesis
      by (simp add: set_pixelv_def add.commute add.left_commute)
  qed
qed

lemma index_from_scan_absent:
  "uv \<notin> set offs \<Longrightarrow> index_from_scan offs uv i = - 1"
  by (induction offs arbitrary: i) auto

lemma index_from_scan_nth:
  "distinct offs \<Longrightarrow> j < length offs \<Longrightarrow> index_from_scan offs (offs ! j) i = i + int j"
proof (induction offs arbitrary: i j)
  case Nil
  then show ?case by simp
next
  case (Cons ofs rest)
  then show ?case by (cases j) (auto simp: nth_eq_iff_index_eq)
qed

lemma byte_roundtrip:
  "0 \<le> n \<Longrightarrow> n \<le> 255 \<Longrightarrow> to_int (to_byte (real_of_int n / 255) * 255) = n"
  by (simp add: to_byte_def CLAMP_def)

lemma index_from_image_region_map:
  assumes "offsets_ok offs"
  shows "index_from_image (region_map_image offs) uv = index_from_scan offs uv 0"
proof (cases "uv \<in> set offs")
  case True
  then obtain j where j: "j < length offs" and uv: "uv = offs ! j"
    by (auto simp: in_set_conv_nth)
  let ?blank = "fill (Image_create REGION_MAP_SIZE REGION_MAP_SIZE FORMAT_RG8) COLOR_BLACK"
  from assms have d: "distinct offs" and n: "int (length offs) \<le> 255"
    and b: "is_in_bounds (vadd (offs ! j) (vhalf REGION_MAP_VSIZE)) REGION_MAP_VSIZE"
    using j by (auto simp: offsets_ok_def list_all_length)
  from b have inb: "in_image ?blank (vadd (offs ! j) (vhalf REGION_MAP_VSIZE))"
    by (simp add: in_image_def is_in_bounds_def fill_def Image_create_def REGION_MAP_VSIZE_def)
  have "index_from_image (region_map_image offs) uv
          = to_int (to_byte (real_of_int (int j + 1) / 255) * 255) - 1"
    using paint_regions_nth [OF d j inb, of 0] inb
    by (simp add: index_from_image_def region_map_image_def get_pixelv_def in_image_def uv
        fill_def Image_create_def mkColor_def)
  also have "\<dots> = int j" using j n by (subst byte_roundtrip) simp_all
  finally show ?thesis using index_from_scan_nth [OF d j, of 0] uv by simp
next
  case False
  have "cr (get_pixelv (region_map_image offs) (vadd uv (vhalf REGION_MAP_VSIZE))) = 0"
    using paint_regions_other [OF refl False, of 0]
    by (simp add: region_map_image_def get_pixelv_def in_image_def fill_def Image_create_def
        Color_default_def COLOR_BLACK_def mkColor_def to_byte_def CLAMP_def to_int_def)
  with False show ?thesis
    by (simp add: index_from_image_def index_from_scan_absent to_int_def)
qed

lemma update_regions_region_map:
  "gen_image (generated_region_map (update_regions s)) =
     (if gen_dirty (generated_region_map s) then Some (region_map_image (region_offsets s))
      else gen_image (generated_region_map s))"
  by (simp add: update_regions_def Let_def Generated_create_image_def)

lemma get_offset_from_cong:
  "region_size s' = region_size s \<Longrightarrow> get_offset_from s' p = get_offset_from s p"
  by (simp add: get_offset_from_def get_region_size_def)

lemma index_from_image_nth:
  assumes "distinct offs" and "j < length offs"
    and "is_in_bounds (vadd (offs ! j) (vhalf REGION_MAP_VSIZE)) REGION_MAP_VSIZE"
  shows "index_from_image (region_map_image offs) (offs ! j)
           = to_int (to_byte (real_of_int (int j + 1) / 255) * 255) - 1"
proof -
  let ?blank = "fill (Image_create REGION_MAP_SIZE REGION_MAP_SIZE FORMAT_RG8) COLOR_BLACK"
  from assms(3) have inb: "in_image ?blank (vadd (offs ! j) (vhalf REGION_MAP_VSIZE))"
    by (simp add: in_image_def is_in_bounds_def fill_def Image_create_def REGION_MAP_VSIZE_def)
  show ?thesis
    using paint_regions_nth [OF assms(1,2) inb, of 0] inb
    by (simp add: index_from_image_def region_map_image_def get_pixelv_def in_image_def
        fill_def Image_create_def mkColor_def)
qed

lemma get_region_index_scan:
  "gen_image (generated_region_map s) = None \<Longrightarrow>
     get_region_index s p =
       guarded (get_offset_from s p) (index_from_scan (region_offsets s) (get_offset_from s p) 0)"
  by (simp add: get_region_index_def Let_def guarded_def)

lemma get_region_index_image:
  "gen_image (generated_region_map s) = Some img \<Longrightarrow>
     get_region_index s p =
       guarded (get_offset_from s p) (index_from_image img (get_offset_from s p))"
  by (simp add: get_region_index_def Let_def guarded_def)

lemma update_regions_coherent:
  "cache_coherent s \<Longrightarrow> cache_coherent (update_regions s)"
  by (simp add: cache_coherent_def update_regions_region_map)

lemma cleared_coherent:
  "gen_image (generated_region_map s) = None \<Longrightarrow> cache_coherent s"
  by (simp add: cache_coherent_def)

lemma add_region_coherent:
  "cache_coherent s \<Longrightarrow> cache_coherent (snd (add_region COLOR_of s p))"
  by (simp add: add_region_def Let_def update_regions_coherent cleared_coherent
      clear_region_caches_def Generated_clear_def)

lemma remove_region_coherent:
  "cache_coherent s \<Longrightarrow> cache_coherent (remove_region s p)"
  by (simp add: remove_region_def Let_def update_regions_coherent cleared_coherent
      clear_region_caches_def Generated_clear_def)

lemma set_region_offsets_coherent:
  "cache_coherent (set_region_offsets s p_array)"
  by (simp add: set_region_offsets_def update_regions_coherent cleared_coherent
      Generated_clear_def)

lemma force_update_maps_coherent:
  "cache_coherent s \<Longrightarrow> cache_coherent (force_update_maps s t)"
  by (cases t; simp; rule update_regions_coherent; simp add: cache_coherent_def)

lemma put_tile_coherent:
  "cache_coherent s \<Longrightarrow> cache_coherent (put_tile s t k img)"
  by (cases t) (simp_all add: cache_coherent_def)

lemma set_map_region_coherent:
  "cache_coherent s \<Longrightarrow> cache_coherent (set_map_region s t i img)"
  by (cases t) (simp_all add: cache_coherent_def)

lemma resolve_region_coherent:
  "resolve_region COLOR_of b s p = Some (s', i) \<Longrightarrow> cache_coherent s \<Longrightarrow> cache_coherent s'"
  using add_region_coherent [of s COLOR_of p]
  by (auto simp: resolve_region_def Let_def split: if_splits prod.splits)

lemma paint_cell_coherent:
  "paint_cell ed t rot rsize bgp xy k = Inr k' \<Longrightarrow> cache_coherent (st_storage k)
     \<Longrightarrow> cache_coherent (st_storage k')"
  by (auto simp: paint_cell_def Let_def put_tile_coherent split: if_splits option.splits)

lemma brush_cell_coherent:
  "brush_cell COLOR_of ed t gp rot rsize xy k = Inr k' \<Longrightarrow> cache_coherent (st_storage k)
     \<Longrightarrow> cache_coherent (st_storage k')"
  by (auto simp: brush_cell_def Let_def split: option.splits prod.splits if_splits
      dest!: resolve_region_coherent dest: paint_cell_coherent)

lemma brush_loop_coherent:
  "brush_loop COLOR_of ed t gp rot rsize cells k = Inr k' \<Longrightarrow> cache_coherent (st_storage k)
     \<Longrightarrow> cache_coherent (st_storage k')"
proof (induction cells arbitrary: k)
  case Nil
  then show ?case by simp
next
  case (Cons xy cells)
  then show ?case
    by (auto split: sum.splits dest: brush_cell_coherent)
qed

lemma operate_map_coherent:
  "operate_map COLOR_of randf ed s t gp cam = Inr k \<Longrightarrow> cache_coherent s
     \<Longrightarrow> cache_coherent (st_storage k)"
  by (auto simp: operate_map_def Let_def force_update_maps_coherent
      split: if_splits sum.splits dest!: brush_loop_coherent)

lemma operate_region_coherent:
  "cache_coherent s \<Longrightarrow> cache_coherent (operate_region COLOR_of ed s p)"
  by (simp add: operate_region_def Let_def add_region_coherent remove_region_coherent)

lemma run_map_coherent:
  "run_map COLOR_of randf ed s t p cam cont = Inr s' \<Longrightarrow> cache_coherent s \<Longrightarrow> cache_coherent s'"
  by (auto simp: run_map_def split: if_splits sum.splits dest: operate_map_coherent)

lemma operate_coherent:
  "operate COLOR_of randf ed s p cam cont = Inr (ed', s') \<Longrightarrow> cache_coherent s
     \<Longrightarrow> cache_coherent s'"
  by (cases "tool (track ed p)")
     (auto simp: operate_def Let_def operate_region_coherent split: sum.splits if_splits
       dest: run_map_coherent)

lemma setters_coherent:
  assumes "cache_coherent s"
  shows "cache_coherent (set_height_maps s p_maps) \<and> cache_coherent (set_control_maps s p_maps) \<and>
     cache_coherent (set_color_maps s p_maps) \<and> cache_coherent (set_maps s t p_maps)"
proof -
  have h: "cache_coherent (set_height_maps s p_maps)"
    unfolding set_height_maps_def
    by (rule force_update_maps_coherent) (use assms in \<open>simp add: cache_coherent_def\<close>)
  have c: "cache_coherent (set_control_maps s p_maps)"
    unfolding set_control_maps_def
    by (rule force_update_maps_coherent) (use assms in \<open>simp add: cache_coherent_def\<close>)
  have l: "cache_coherent (set_color_maps s p_maps)"
    unfolding set_color_maps_def
    by (rule force_update_maps_coherent) (use assms in \<open>simp add: cache_coherent_def\<close>)
  from h c l assms show ?thesis by (cases t) simp_all
qed

lemma set_region_size_coherent:
  "cache_coherent s \<Longrightarrow> cache_coherent (set_region_size s n)"
  by (simp add: cache_coherent_def set_region_size_def)

lemma set_noise_enabled_coherent:
  "cache_coherent s \<Longrightarrow> cache_coherent (set_noise_enabled s e)"
proof (cases e)
  case True
  then show ?thesis
    by (simp add: set_noise_enabled_def Let_def update_regions_coherent cleared_coherent
        Generated_clear_def)
next
  case False
  assume "cache_coherent s"
  with False show ?thesis
    by (simp add: set_noise_enabled_def Let_def cache_coherent_def)
qed

lemma reachable_coherent:
  assumes "cache_coherent s0" and "reachable s0 s"
  shows "cache_coherent s"
  using assms(2,1)
proof (induction rule: reachable.induct)
  case start
  then show ?case by simp
next
  case (by_operate s COLOR_of randf ed p cam cont ed' s')
  then show ?case by (blast intro: operate_coherent)
next
  case (by_set_maps s p_maps t)
  then show ?case using setters_coherent by blast
next
  case (by_set_height_maps s p_maps)
  then show ?case using setters_coherent by blast
next
  case (by_set_control_maps s p_maps)
  then show ?case using setters_coherent by blast
next
  case (by_set_color_maps s p_maps)
  then show ?case using setters_coherent by blast
qed (simp_all add: add_region_coherent remove_region_coherent set_map_region_coherent
      force_update_maps_coherent set_region_offsets_coherent set_region_size_coherent
      set_noise_enabled_coherent)

text \<open>
  C1, amended: in a coherent storage whose offsets are pairwise distinct, have their pixel
  inside the region map and number at most 255, \<^verbatim>\<open>get_region_index\<close> returns for every
  position the same index before the region map is invalidated (through the image, when
  there is one), after it is invalidated (through the scan of the offsets) and after
  \<^verbatim>\<open>_update_regions\<close> has built it again. Every storage reached by the public
  operations from a coherent one is coherent (lemma \<open>reachable_coherent\<close>).
\<close>

theorem region_index_cache_agrees:
  assumes "cache_coherent s" and "offsets_ok (region_offsets s)"
  shows "get_region_index (invalidated s) p = get_region_index s p \<and>
         get_region_index (update_regions (invalidated s)) p = get_region_index s p"
proof -
  let ?uv = "get_offset_from s p"
  let ?scan = "guarded ?uv (index_from_scan (region_offsets s) ?uv 0)"
  have o1: "get_offset_from (invalidated s) p = ?uv"
    by (rule get_offset_from_cong) (simp add: invalidated_def)
  have o2: "get_offset_from (update_regions (invalidated s)) p = ?uv"
    by (rule get_offset_from_cong) (simp add: invalidated_def)
  have i1: "gen_image (generated_region_map (invalidated s)) = None"
    by (simp add: invalidated_def Generated_clear_def)
  have r: "region_offsets (invalidated s) = region_offsets s"
    by (simp add: invalidated_def)
  have i2: "gen_image (generated_region_map (update_regions (invalidated s)))
              = Some (region_map_image (region_offsets s))"
    unfolding update_regions_region_map r
    by (simp add: invalidated_def Generated_clear_def)
  note eq = index_from_image_region_map [OF assms(2)]
  have scan: "get_region_index (invalidated s) p = ?scan"
    unfolding get_region_index_scan [OF i1] o1 r ..
  have rebuilt: "get_region_index (update_regions (invalidated s)) p = ?scan"
    unfolding get_region_index_image [OF i2] o2 eq ..
  have cur: "get_region_index s p = ?scan"
  proof (cases "gen_image (generated_region_map s)")
    case None
    then show ?thesis by (rule get_region_index_scan)
  next
    case (Some img)
    with assms(1) have img: "img = region_map_image (region_offsets s)"
      by (simp add: cache_coherent_def)
    show ?thesis
      unfolding get_region_index_image [OF Some] img eq ..
  qed
  show ?thesis unfolding scan rebuilt cur by simp
qed

lemma one_region_coherent: "cache_coherent one_region"
  unfolding one_region_def
  by (rule add_region_coherent) (simp add: cache_coherent_def example_storage_def example_Generated_def)

theorem region_index_cache_agrees_witness:
  "cache_coherent one_region \<and> offsets_ok (region_offsets one_region) \<and>
   gen_image (generated_region_map one_region) \<noteq> None \<and>
   get_region_index one_region (10, 0, 20) = 0 \<and>
   get_region_index (invalidated one_region) (10, 0, 20) = 0 \<and>
   get_region_index (update_regions (invalidated one_region)) (10, 0, 20) = 0"
proof -
  have ok: "offsets_ok (region_offsets one_region)"
    by (simp add: one_region_offsets offsets_ok_def is_in_bounds_def vadd_def vhalf_def
        REGION_MAP_VSIZE_def REGION_MAP_SIZE_def)
  have v: "gen_image (generated_region_map one_region) \<noteq> None"
    and i: "get_region_index one_region (10, 0, 20) = 0"
    by (simp_all add: one_region_def eval_defs)
  from region_index_cache_agrees [OF one_region_coherent ok, of "(10, 0, 20)"] ok v i
    one_region_coherent
  show ?thesis by simp
qed

lemma full_grid_facts:
  "distinct full_grid" "length full_grid = 256" "full_grid ! 255 = (7, 7)"
proof -
  have "inj_on (\<lambda>n. (int n mod 16 - 8, int n div 16 - 8)) (set [0..<256])"
  proof (rule inj_onI)
    fix x y :: nat
    assume "(int x mod 16 - 8, int x div 16 - 8) = (int y mod 16 - 8, int y div 16 - 8)"
    then have "int x mod 16 = int y mod 16" and "int x div 16 = int y div 16" by simp_all
    then have "int x = int y" by (metis mult_div_mod_eq)
    then show "x = y" by simp
  qed
  then show "distinct full_grid" by (simp add: full_grid_def distinct_map)
  show "length full_grid = 256" by (simp add: full_grid_def)
  show "full_grid ! 255 = (7, 7)" by (simp add: full_grid_def)
qed

lemma full_grid_lookup:
  "index_from_image (region_map_image full_grid) (7, 7) = 254"
  "index_from_scan full_grid (7, 7) 0 = 255"
proof -
  have b: "is_in_bounds (vadd (full_grid ! 255) (vhalf REGION_MAP_VSIZE)) REGION_MAP_VSIZE"
    by (simp add: full_grid_facts is_in_bounds_def vadd_def vhalf_def REGION_MAP_VSIZE_def
        REGION_MAP_SIZE_def)
  from index_from_image_nth [OF full_grid_facts(1) _ b]
  show "index_from_image (region_map_image full_grid) (7, 7) = 254"
    by (simp add: full_grid_facts to_byte_def CLAMP_def to_int_def)
  from index_from_scan_nth [OF full_grid_facts(1), of 255 0]
  show "index_from_scan full_grid (7, 7) 0 = 255"
    by (simp add: full_grid_facts)
qed

lemma dup_lookup:
  "get_region_index (set_region_offsets example_storage [(0, 0), (0, 0)]) (0, 0, 0) = 1"
  "get_region_index (invalidated (set_region_offsets example_storage [(0, 0), (0, 0)])) (0, 0, 0) = 0"
  by (simp_all add: set_region_offsets_def invalidated_def eval_defs)

lemma grid_lookup:
  "get_region_index (set_region_offsets example_storage full_grid) (448, 0, 448) = 254"
  "get_region_index (invalidated (set_region_offsets example_storage full_grid)) (448, 0, 448) = 255"
proof -
  have o: "get_offset_from (set_region_offsets example_storage full_grid) (448, 0, 448) = (7, 7)"
    "get_offset_from (invalidated (set_region_offsets example_storage full_grid)) (448, 0, 448) = (7, 7)"
    by (simp_all add: get_offset_from_def get_region_size_def set_region_offsets_def
        invalidated_def example_storage_def)
  have i: "gen_image (generated_region_map (set_region_offsets example_storage full_grid))
             = Some (region_map_image full_grid)"
    "gen_image (generated_region_map (invalidated (set_region_offsets example_storage full_grid))) = None"
    by (simp_all add: set_region_offsets_def update_regions_region_map Generated_clear_def
        invalidated_def)
  have r: "region_offsets (invalidated (set_region_offsets example_storage full_grid)) = full_grid"
    by (simp add: set_region_offsets_def invalidated_def)
  show "get_region_index (set_region_offsets example_storage full_grid) (448, 0, 448) = 254"
    by (simp add: get_region_index_def o i full_grid_lookup ABS_def REGION_MAP_SIZE_def)
  show "get_region_index (invalidated (set_region_offsets example_storage full_grid)) (448, 0, 448) = 255"
    by (simp add: get_region_index_def o i r full_grid_lookup ABS_def REGION_MAP_SIZE_def)
qed

lemma edge_lookup:
  "get_region_index edge_region (512, 0, 0) = - 1"
  "get_region_index (invalidated edge_region) (512, 0, 0) = 0"
  by (simp_all add: edge_region_def invalidated_def eval_defs)

text \<open>
  C1 as stated fails, in three ways. Two regions at one offset, which
  \<^verbatim>\<open>set_region_offsets\<close> accepts: the image holds the last, the scan finds the first.
  A region at offset 8, which the guard of \<^verbatim>\<open>add_region\<close> accepts: its pixel, 16, is
  outside the region map, so the image does not hold it. The 256th region: (255 + 1) / 255
  is stored as the byte 255, so the image gives index 254.
\<close>

theorem region_index_counterexample:
  "get_region_index (set_region_offsets example_storage [(0, 0), (0, 0)]) (0, 0, 0) = 1 \<and>
   get_region_index (invalidated (set_region_offsets example_storage [(0, 0), (0, 0)])) (0, 0, 0)
     = 0 \<and>
   get_region_index edge_region (512, 0, 0) = - 1 \<and>
   get_region_index (invalidated edge_region) (512, 0, 0) = 0 \<and>
   get_region_index (set_region_offsets example_storage full_grid) (448, 0, 448) = 254 \<and>
   get_region_index (invalidated (set_region_offsets example_storage full_grid)) (448, 0, 448)
     = 255"
  by (simp add: dup_lookup edge_lookup grid_lookup)

subsection \<open>Adding a region twice\<close>

text \<open>
  C4, at the offset 8: \<^verbatim>\<open>add_region\<close> at x = 512 succeeds on the storage with no region,
  and succeeds again on the storage it made, which then holds two regions at offset (8, 0).
\<close>

theorem add_region_twice_at_edge:
  "fst (add_region example_COLOR example_storage (512, 0, 0)) = OK \<and>
   fst (add_region example_COLOR edge_region (512, 0, 0)) = OK \<and>
   region_offsets (snd (add_region example_COLOR edge_region (512, 0, 0))) = [(8, 0), (8, 0)]"
  by (simp add: edge_region_def eval_defs)

subsection \<open>Replacing one tile\<close>

text \<open>
  C5, on the storage with one region: its generated height texture is clean;
  \<^verbatim>\<open>set_map_region\<close> replaces the height tile and leaves the generated texture as it was,
  so it is still clean, while \<^verbatim>\<open>set_height_maps\<close> with the same tile clears it and
  builds it again.
\<close>

theorem set_map_region_keeps_cache:
  "\<not> gen_dirty (generated_height_maps one_region) \<and>
   height_maps one_region \<noteq> [Some example_pixel] \<and>
   height_maps (set_map_region one_region TYPE_HEIGHT 0 (Some example_pixel)) = [Some example_pixel] \<and>
   generated_height_maps (set_map_region one_region TYPE_HEIGHT 0 (Some example_pixel))
     = generated_height_maps one_region \<and>
   set_height_maps one_region [Some example_pixel]
     = update_regions
         (one_region\<lparr>height_maps := [Some example_pixel],
                     generated_height_maps := Generated_clear (generated_height_maps one_region)\<rparr>)"
  by (simp add: one_region_def in_range_def set_height_maps_def example_pixel_def eval_defs)

end
